theory Spec2Isabelle
  imports Main "HOL-Library.Word"
begin

section \<open>JavaScript values, errors and promises\<close>

text \<open>
  The repository holds three iterations of one Express server: the token relay
  (\<^verbatim>\<open>src/unnamed/part_001\<close>), the authenticating relay (\<^verbatim>\<open>src/server.js\<close>) and the
  relay with a scan history (\<^verbatim>\<open>src/unnamed/part_000\<close>). Each handler becomes a function
  from the process state, the request and the replies of the outside world to the HTTP
  response, the new state and the list of outside calls made, in order.

  Scalar JavaScript values: the stored token, the fields of a JSON request body and the
  token fields of a login reply. \<open>JUndefined\<close> is a missing property.
\<close>

datatype jsval = JUndefined | JNull | JBool bool | JNum int | JStr string

text \<open>ToBoolean, as \<^verbatim>\<open>!v\<close>, \<^verbatim>\<open>a || b\<close> and \<^verbatim>\<open>a && b\<close> use it.\<close>

fun truthy :: "jsval \<Rightarrow> bool" where
  "truthy JUndefined = False"
| "truthy JNull = False"
| "truthy (JBool b) = b"
| "truthy (JNum n) = (n \<noteq> 0)"
| "truthy (JStr s) = (s \<noteq> [])"

definition js_or :: "jsval \<Rightarrow> jsval \<Rightarrow> jsval" where
  "js_or a b = (if truthy a then a else b)"

text \<open>
  What axios rejects with, and what any other throw inside a \<^verbatim>\<open>try\<close> carries: an
  error has a \<^verbatim>\<open>message\<close>, and an axios error for a reply outside 2xx has a
  \<^verbatim>\<open>response\<close> with the status and the body's \<^verbatim>\<open>message\<close> (when it is a string).
  A network error and a database error have no \<^verbatim>\<open>response\<close>.
\<close>

record upstream_response =
  resp_status :: nat
  resp_message :: "string option"

record js_error =
  err_response :: "upstream_response option"
  err_message :: string

text \<open>
  What an awaited call comes back with. Every call is taken to settle: a request that is
  never answered (the handler then sends no response at all) is not a value of the model.
\<close>

datatype 'a promise = Resolved 'a | Rejected js_error

text \<open>\<^verbatim>\<open>err.response?.data?.message || err.message\<close>\<close>

definition error_msg :: "js_error \<Rightarrow> string" where
  "error_msg e =
     (case err_response e of
        None \<Rightarrow> err_message e
      | Some r \<Rightarrow>
          (case resp_message r of
             None \<Rightarrow> err_message e
           | Some m \<Rightarrow> if m = [] then err_message e else m))"

text \<open>\<^verbatim>\<open>err.response?.status || 500\<close>\<close>

definition error_status :: "js_error \<Rightarrow> nat" where
  "error_status e =
     (case err_response e of
        None \<Rightarrow> 500
      | Some r \<Rightarrow> if resp_status r = 0 then 500 else resp_status r)"

text \<open>\<^verbatim>\<open>err.response?.status === 401\<close>\<close>

definition is_401 :: "js_error \<Rightarrow> bool" where
  "is_401 e = (case err_response e of None \<Rightarrow> False | Some r \<Rightarrow> resp_status r = 401)"

section \<open>Requests, payloads and responses\<close>

type_synonym bytes = "8 word list"

text \<open>\<^verbatim>\<open>req.file\<close> as multer's memory storage leaves it, and the request the handler sees.\<close>

record upload_file =
  buffer :: bytes
  originalname :: string
  mimetype :: string

record detect_request =
  req_file :: "upload_file option"
  body_sandbox :: jsval

text \<open>
  The content of a multipart form is the list of its fields in the order of the
  \<^verbatim>\<open>append\<close> calls.
\<close>

datatype form_value = FileField bytes string string | TextField string

type_synonym form_data = "(string \<times> form_value) list"

text \<open>
  The detection payload. Of the upstream JSON the code reads \<^verbatim>\<open>summary.ai\<close>,
  \<^verbatim>\<open>summary.human\<close>, \<^verbatim>\<open>imageInfo.width\<close> and \<^verbatim>\<open>imageInfo.height\<close>. \<open>None\<close> is a
  property that is missing or null, which \<^verbatim>\<open>?.\<close> and \<^verbatim>\<open>??\<close> do not tell apart; a field
  that is present is a number, and numbers are the integers (on which the doubles of
  JavaScript subtract exactly). A resolved reply carries an object.
\<close>

record summary_info =
  ai :: "int option"
  human :: "int option"

record image_info =
  width :: "int option"
  height :: "int option"

record detect_data =
  summary :: "summary_info option"
  imageInfo :: "image_info option"
  other_fields :: "(string \<times> jsval) list"

record login_data =
  access_token :: jsval
  token :: jsval

text \<open>A row of the table \<^verbatim>\<open>scans\<close> (\<^verbatim>\<open>initDb\<close> in \<^verbatim>\<open>part_000\<close>).\<close>

record scan_row =
  row_id :: nat
  scan_id :: string
  filename :: string
  ai_pct :: int
  human_pct :: int
  row_width :: "int option"
  row_height :: "int option"
  row_sandbox :: bool
  created_at :: int

datatype body =
    JsonData detect_data
  | ErrorBody string
  | OkBody string
  | TokenSetBody bool
  | StatusBody bool bool
  | RowsBody "scan_row list"
  | FrameworkErrorPage

record http_response =
  status :: nat
  body :: body

text \<open>The object handed to \<^verbatim>\<open>saveScan\<close>.\<close>

record scan_args =
  a_scanId :: string
  a_filename :: string
  a_aiPct :: int
  a_humanPct :: int
  a_width :: "int option"
  a_height :: "int option"
  a_sandbox :: bool

text \<open>
  The calls that leave the handler, in the order they are made: a call of
  \<^verbatim>\<open>authenticate\<close>, the POST to the identity endpoint (email, key), the POST to the
  detection endpoint (scan id of the URL, form, bearer token), a call of \<^verbatim>\<open>saveScan\<close>,
  the INSERT with its seven values, and the SELECT of the history.

  The form object of the library form-data is a stream that a POST reads to its end.
  \<open>PostCheck\<close> is the POST of a form that has not been read before: its fields are the
  body of the request. \<open>PostCheckSpent\<close> is the POST of a form object that an earlier POST
  has already read: the request goes to the URL of the scan id with the bearer token, and
  no field of the form is sent with it.
\<close>

datatype event =
    CallAuthenticate
  | PostLogin jsval jsval
  | PostCheck string form_data jsval
  | PostCheckSpent string jsval
  | CallSaveScan scan_args
  | QueryInsert string string int int "int option" "int option" bool
  | QuerySelect

section \<open>The credential store and the authenticator (\<^verbatim>\<open>server.js\<close>, \<^verbatim>\<open>part_000\<close>)\<close>

record credential =
  storedToken :: jsval
  tokenFetchedAt :: "int option"

record environment =
  COPYLEAKS_EMAIL :: jsval
  COPYLEAKS_API_KEY :: jsval

definition initial_credential :: credential where
  "initial_credential = \<lparr>storedToken = JNull, tokenFetchedAt = None\<rparr>"

definition TOKEN_TTL_MS :: int where
  "TOKEN_TTL_MS = 47 * 60 * 60 * 1000"

text \<open>
  \<^verbatim>\<open>authenticate()\<close>, the same in \<^verbatim>\<open>server.js\<close> and \<^verbatim>\<open>part_000\<close>. \<open>reply\<close> is what the
  identity endpoint answers if it is asked, \<open>now\<close> what \<^verbatim>\<open>Date.now()\<close> then returns.
  The function returns nothing to its caller; both fields are assigned on every resolved
  reply, whatever the reply holds.
\<close>

definition authenticate ::
  "environment \<Rightarrow> login_data promise \<Rightarrow> int \<Rightarrow> credential \<Rightarrow> credential \<times> event list" where
  "authenticate env reply now st =
     (let email = COPYLEAKS_EMAIL env; apiKey = COPYLEAKS_API_KEY env in
      if \<not> truthy email \<or> \<not> truthy apiKey then (st, [CallAuthenticate])
      else
        (case reply of
           Resolved d \<Rightarrow>
             (\<lparr>storedToken = js_or (access_token d) (token d), tokenFetchedAt = Some now\<rparr>,
              [CallAuthenticate, PostLogin email apiKey])
         | Rejected err \<Rightarrow> (st, [CallAuthenticate, PostLogin email apiKey])))"

text \<open>
  The states of the store that the process can be in: \<^verbatim>\<open>authenticate\<close> is the only
  function of \<^verbatim>\<open>server.js\<close> and \<^verbatim>\<open>part_000\<close> that assigns to it (at the start, on the
  47 hour timer, and from the detection handler), so a state of the store is the result
  of a sequence of calls, each with its environment, the answer of the identity endpoint
  and the clock.
\<close>

fun authenticate_all ::
  "credential \<Rightarrow> (environment \<times> login_data promise \<times> int) list \<Rightarrow> credential" where
  "authenticate_all st [] = st"
| "authenticate_all st ((env, reply, now) # calls) =
     authenticate_all (fst (authenticate env reply now st)) calls"

text \<open>
  \<^verbatim>\<open>refreshIfNeeded()\<close>. \<open>now0\<close> is the \<^verbatim>\<open>Date.now()\<close> of the staleness test; a null
  \<^verbatim>\<open>tokenFetchedAt\<close> subtracts as 0.
\<close>

definition is_stale :: "int \<Rightarrow> credential \<Rightarrow> bool" where
  "is_stale now0 st =
     (\<not> truthy (storedToken st) \<or>
      now0 - (case tokenFetchedAt st of None \<Rightarrow> 0 | Some t \<Rightarrow> t) \<ge> TOKEN_TTL_MS)"

definition refreshIfNeeded ::
  "environment \<Rightarrow> int \<Rightarrow> login_data promise \<Rightarrow> int \<Rightarrow> credential \<Rightarrow> credential \<times> event list" where
  "refreshIfNeeded env now0 reply now st =
     (if is_stale now0 st then authenticate env reply now st else (st, []))"

text \<open>\<^verbatim>\<open>GET /api/status\<close> of \<^verbatim>\<open>server.js\<close> and \<^verbatim>\<open>part_000\<close>.\<close>

definition srv_get_api_status :: "environment \<Rightarrow> credential \<Rightarrow> http_response" where
  "srv_get_api_status env st =
     \<lparr>status = 200,
      body = StatusBody (storedToken st \<noteq> JNull)
               (truthy (COPYLEAKS_EMAIL env) \<and> truthy (COPYLEAKS_API_KEY env))\<rparr>"

section \<open>The detection handlers\<close>

text \<open>\<^verbatim>\<open>String(sandbox)\<close> of a boolean.\<close>

definition String_of_bool :: "bool \<Rightarrow> string" where
  "String_of_bool b = (if b then ''true'' else ''false'')"

text \<open>The four \<^verbatim>\<open>append\<close> calls that build the outbound form, the same in all three files.\<close>

definition build_form :: "upload_file \<Rightarrow> bool \<Rightarrow> form_data" where
  "build_form f sandbox =
     [(''image'', FileField (buffer f) (originalname f) (mimetype f)),
      (''filename'', TextField (originalname f)),
      (''sandbox'', TextField (String_of_bool sandbox)),
      (''model'', TextField ''ai-image-1-ultra'')]"

text \<open>
  What the outside world answers during one \<^verbatim>\<open>POST /api/detect\<close>, one field per place
  of the handler that asks: the clock and the identity endpoint for the refresh, the
  UUID, the first detection reply, the clock and the identity endpoint for the
  re-authentication, the reply to the retry.
\<close>

record detect_io =
  now_stale :: int
  login_refresh :: "login_data promise"
  now_refresh :: int
  randomUUID :: string
  check_first :: "detect_data promise"
  login_retry :: "login_data promise"
  now_retry :: int
  check_retry :: "detect_data promise"

record outcome =
  response :: http_response
  store :: credential
  trace :: "event list"

definition not_authenticated :: http_response where
  "not_authenticated =
     \<lparr>status = 401,
      body = ErrorBody
        ''Not authenticated. Set COPYLEAKS_EMAIL and COPYLEAKS_API_KEY environment variables.''\<rparr>"

definition no_image :: http_response where
  "no_image = \<lparr>status = 400, body = ErrorBody ''No image file provided.''\<rparr>"

definition reauth_failed :: http_response where
  "reauth_failed = \<lparr>status = 401, body = ErrorBody ''Re-authentication failed.''\<rparr>"

definition error_reply :: "js_error \<Rightarrow> http_response" where
  "error_reply e = \<lparr>status = error_status e, body = ErrorBody (error_msg e)\<rparr>"

definition json_reply :: "detect_data \<Rightarrow> http_response" where
  "json_reply d = \<lparr>status = 200, body = JsonData d\<rparr>"

text \<open>
  \<^verbatim>\<open>POST /api/detect\<close> of \<^verbatim>\<open>server.js\<close>, after the upload middleware. In the branch for
  a 401 the handler tests \<^verbatim>\<open>form.set\<close>; the form object of form-data has no such method,
  so the conditional expression is \<^verbatim>\<open>null\<close> and changes nothing, and the second
  \<^verbatim>\<open>axios.post\<close> is given the same object \<^verbatim>\<open>form\<close> that the first POST has read.
  \<open>check_retry\<close> is here what axios comes back with for that request.
\<close>

definition srv_post_api_detect ::
  "environment \<Rightarrow> 'a detect_io_scheme \<Rightarrow> credential \<Rightarrow> detect_request \<Rightarrow> outcome" where
  "srv_post_api_detect env io st req =
     (let (st1, ev0) = refreshIfNeeded env (now_stale io) (login_refresh io) (now_refresh io) st in
      if \<not> truthy (storedToken st1)
      then \<lparr>response = not_authenticated, store = st1, trace = ev0\<rparr>
      else
        (case req_file req of
           None \<Rightarrow> \<lparr>response = no_image, store = st1, trace = ev0\<rparr>
         | Some f \<Rightarrow>
             (let scanId = randomUUID io;
                  sandbox = (body_sandbox req = JStr ''true'');
                  form = build_form f sandbox;
                  ev1 = ev0 @ [PostCheck scanId form (storedToken st1)]
              in
                case check_first io of
                  Resolved d \<Rightarrow> \<lparr>response = json_reply d, store = st1, trace = ev1\<rparr>
                | Rejected err \<Rightarrow>
                    if is_401 err then
                      (let (st2, ev2) = authenticate env (login_retry io) (now_retry io) st1 in
                       if \<not> truthy (storedToken st2)
                       then \<lparr>response = reauth_failed, store = st2, trace = ev1 @ ev2\<rparr>
                       else
                         (let ev3 = ev1 @ ev2 @ [PostCheckSpent scanId (storedToken st2)]
                          in
                            case check_retry io of
                              Resolved d2 \<Rightarrow> \<lparr>response = json_reply d2, store = st2, trace = ev3\<rparr>
                            | Rejected retryErr \<Rightarrow>
                                \<lparr>response = error_reply retryErr, store = st2, trace = ev3\<rparr>))
                    else \<lparr>response = error_reply err, store = st1, trace = ev1\<rparr>)))"

section \<open>The relay with a scan history (\<^verbatim>\<open>part_000\<close>)\<close>

text \<open>
  The database is the table \<^verbatim>\<open>scans\<close> behind the pool \<^verbatim>\<open>db\<close>: \<open>None\<close> when
  \<^verbatim>\<open>DATABASE_URL\<close> is not set (\<^verbatim>\<open>db\<close> is null), else the rows in insertion order. A
  query either succeeds or rejects with an error message; a successful INSERT is given the
  \<^verbatim>\<open>id\<close> and the \<^verbatim>\<open>created_at\<close> that the database assigns.
\<close>

datatype 'a query = QueryOk 'a | QueryFailed string

text \<open>\<^verbatim>\<open>obj?.field\<close> and \<^verbatim>\<open>v ?? d\<close> on the payload, and \<^verbatim>\<open>v || null\<close> on a dimension.\<close>

definition chain :: "'a option \<Rightarrow> ('a \<Rightarrow> 'b option) \<Rightarrow> 'b option" where
  "chain obj field = (case obj of None \<Rightarrow> None | Some x \<Rightarrow> field x)"

definition nullish :: "'a option \<Rightarrow> 'a \<Rightarrow> 'a" where
  "nullish v d = (case v of None \<Rightarrow> d | Some x \<Rightarrow> x)"

definition or_null :: "int option \<Rightarrow> int option" where
  "or_null v = (case v of None \<Rightarrow> None | Some n \<Rightarrow> if n = 0 then None else Some n)"

text \<open>
  The extraction of the result from a 2xx payload, written twice in the handler (after
  the first attempt and after the retry) with the same right-hand sides.
\<close>

definition scan_args_of :: "string \<Rightarrow> upload_file \<Rightarrow> bool \<Rightarrow> detect_data \<Rightarrow> scan_args" where
  "scan_args_of scanId f sandbox data =
     (let aiPct = nullish (chain (summary data) ai) 0;
          humanPct = nullish (chain (summary data) human) (100 - aiPct);
          w = chain (imageInfo data) width;
          h = chain (imageInfo data) height
      in \<lparr>a_scanId = scanId, a_filename = originalname f, a_aiPct = aiPct,
          a_humanPct = humanPct, a_width = w, a_height = h, a_sandbox = sandbox\<rparr>)"

text \<open>
  \<^verbatim>\<open>saveScan\<close>: the new table, the error it throws (if any) and the calls made.
\<close>

definition saveScan ::
  "scan_row list option \<Rightarrow> (nat \<times> int) query \<Rightarrow> scan_args \<Rightarrow>
     scan_row list option \<times> js_error option \<times> event list" where
  "saveScan db res a =
     (case db of
        None \<Rightarrow> (None, None, [CallSaveScan a])
      | Some rows \<Rightarrow>
          (let q = QueryInsert (a_scanId a) (a_filename a) (a_aiPct a) (a_humanPct a)
                     (or_null (a_width a)) (or_null (a_height a)) (a_sandbox a)
           in
             case res of
               QueryOk (i, t) \<Rightarrow>
                 (Some (rows @
                    [\<lparr>row_id = i, scan_id = a_scanId a, filename = a_filename a,
                      ai_pct = a_aiPct a, human_pct = a_humanPct a,
                      row_width = or_null (a_width a), row_height = or_null (a_height a),
                      row_sandbox = a_sandbox a, created_at = t\<rparr>]),
                  None, [CallSaveScan a, q])
             | QueryFailed m \<Rightarrow>
                 (Some rows, Some \<lparr>err_response = None, err_message = m\<rparr>,
                  [CallSaveScan a, q])))"

text \<open>
  \<^verbatim>\<open>ORDER BY created_at DESC LIMIT 100\<close> on the table, and \<^verbatim>\<open>GET /api/history\<close>.
\<close>

definition newest_first :: "scan_row list \<Rightarrow> scan_row list" where
  "newest_first rows = sort_key (\<lambda>r. - created_at r) rows"

definition get_api_history ::
  "scan_row list option \<Rightarrow> unit query \<Rightarrow> http_response \<times> event list" where
  "get_api_history db res =
     (case db of
        None \<Rightarrow> (\<lparr>status = 200, body = RowsBody []\<rparr>, [])
      | Some rows \<Rightarrow>
          (case res of
             QueryOk u \<Rightarrow>
               (\<lparr>status = 200, body = RowsBody (take 100 (newest_first rows))\<rparr>, [QuerySelect])
           | QueryFailed m \<Rightarrow> (\<lparr>status = 500, body = ErrorBody m\<rparr>, [QuerySelect])))"

record hist_io = detect_io +
  insert_first :: "(nat \<times> int) query"
  insert_retry :: "(nat \<times> int) query"

record hist_outcome = outcome +
  database :: "scan_row list option"

text \<open>
  The \<^verbatim>\<open>catch (err)\<close> block of the handler of \<^verbatim>\<open>part_000\<close>. It receives whatever the
  \<^verbatim>\<open>try\<close> block threw: the rejection of the first POST, or the error of \<^verbatim>\<open>saveScan\<close>.
  \<open>ev\<close> are the calls made so far.
\<close>

definition hist_catch ::
  "environment \<Rightarrow> hist_io \<Rightarrow> credential \<Rightarrow> scan_row list option \<Rightarrow> upload_file \<Rightarrow>
     string \<Rightarrow> bool \<Rightarrow> event list \<Rightarrow> js_error \<Rightarrow> hist_outcome" where
  "hist_catch env io st1 db f scanId sandbox ev err =
     (if is_401 err then
        (let (st2, ev2) = authenticate env (login_retry io) (now_retry io) st1 in
         if \<not> truthy (storedToken st2)
         then \<lparr>response = reauth_failed, store = st2, trace = ev @ ev2, database = db\<rparr>
         else
           (let retryForm = build_form f sandbox;
                ev3 = ev @ ev2 @ [PostCheck scanId retryForm (storedToken st2)]
            in
              case check_retry io of
                Resolved data \<Rightarrow>
                  (case saveScan db (insert_retry io) (scan_args_of scanId f sandbox data) of
                     (db', None, evs) \<Rightarrow>
                       \<lparr>response = json_reply data, store = st2, trace = ev3 @ evs, database = db'\<rparr>
                   | (db', Some retryErr, evs) \<Rightarrow>
                       \<lparr>response = error_reply retryErr, store = st2, trace = ev3 @ evs,
                        database = db'\<rparr>)
              | Rejected retryErr \<Rightarrow>
                  \<lparr>response = error_reply retryErr, store = st2, trace = ev3, database = db\<rparr>))
      else \<lparr>response = error_reply err, store = st1, trace = ev, database = db\<rparr>)"

text \<open>\<^verbatim>\<open>POST /api/detect\<close> of \<^verbatim>\<open>part_000\<close>, after the upload middleware.\<close>

definition hist_post_api_detect ::
  "environment \<Rightarrow> hist_io \<Rightarrow> credential \<Rightarrow> scan_row list option \<Rightarrow> detect_request \<Rightarrow>
     hist_outcome" where
  "hist_post_api_detect env io st db req =
     (let (st1, ev0) = refreshIfNeeded env (now_stale io) (login_refresh io) (now_refresh io) st in
      if \<not> truthy (storedToken st1)
      then \<lparr>response = not_authenticated, store = st1, trace = ev0, database = db\<rparr>
      else
        (case req_file req of
           None \<Rightarrow> \<lparr>response = no_image, store = st1, trace = ev0, database = db\<rparr>
         | Some f \<Rightarrow>
             (let scanId = randomUUID io;
                  sandbox = (body_sandbox req = JStr ''true'');
                  form = build_form f sandbox;
                  ev1 = ev0 @ [PostCheck scanId form (storedToken st1)]
              in
                case check_first io of
                  Resolved data \<Rightarrow>
                    (case saveScan db (insert_first io) (scan_args_of scanId f sandbox data) of
                       (db', None, evs) \<Rightarrow>
                         \<lparr>response = json_reply data, store = st1, trace = ev1 @ evs,
                          database = db'\<rparr>
                     | (db', Some err, evs) \<Rightarrow>
                         hist_catch env io st1 db' f scanId sandbox (ev1 @ evs) err)
                | Rejected err \<Rightarrow> hist_catch env io st1 db f scanId sandbox ev1 err)))"

section \<open>The token relay (\<^verbatim>\<open>part_001\<close>)\<close>

text \<open>
  The state is \<^verbatim>\<open>storedToken\<close> alone, \<^verbatim>\<open>process.env.COPYLEAKS_TOKEN || null\<close> at the
  start.
\<close>

definition tok_initial :: "jsval \<Rightarrow> jsval" where
  "tok_initial COPYLEAKS_TOKEN = js_or COPYLEAKS_TOKEN JNull"

text \<open>
  \<^verbatim>\<open>String.prototype.trim\<close>. A string is the list of the bytes of its UTF-8 encoding,
  so that it is empty exactly when \<^verbatim>\<open>length\<close> is 0. \<open>white_space\<close> lists the encodings
  of the characters that \<^verbatim>\<open>trim\<close> removes, the white space and the line terminators of
  ECMAScript: U+0009 to U+000D, U+0020, U+00A0, U+1680, U+2000 to U+200A, U+2028,
  U+2029, U+202F, U+205F, U+3000 and U+FEFF.
\<close>

definition white_space :: "string list" where
  "white_space =
     [[CHR 0x09], [CHR 0x0A], [CHR 0x0B], [CHR 0x0C], [CHR 0x0D], [CHR 0x20],
      [CHR 0xC2, CHR 0xA0],
      [CHR 0xE1, CHR 0x9A, CHR 0x80],
      [CHR 0xE2, CHR 0x80, CHR 0x80], [CHR 0xE2, CHR 0x80, CHR 0x81],
      [CHR 0xE2, CHR 0x80, CHR 0x82], [CHR 0xE2, CHR 0x80, CHR 0x83],
      [CHR 0xE2, CHR 0x80, CHR 0x84], [CHR 0xE2, CHR 0x80, CHR 0x85],
      [CHR 0xE2, CHR 0x80, CHR 0x86], [CHR 0xE2, CHR 0x80, CHR 0x87],
      [CHR 0xE2, CHR 0x80, CHR 0x88], [CHR 0xE2, CHR 0x80, CHR 0x89],
      [CHR 0xE2, CHR 0x80, CHR 0x8A],
      [CHR 0xE2, CHR 0x80, CHR 0xA8], [CHR 0xE2, CHR 0x80, CHR 0xA9],
      [CHR 0xE2, CHR 0x80, CHR 0xAF],
      [CHR 0xE2, CHR 0x81, CHR 0x9F],
      [CHR 0xE3, CHR 0x80, CHR 0x80],
      [CHR 0xEF, CHR 0xBB, CHR 0xBF]]"

text \<open>
  The number of bytes of the entry of \<open>table\<close> that \<open>s\<close> starts with, 0 when it starts
  with none.
\<close>

definition space_at_start :: "string list \<Rightarrow> string \<Rightarrow> nat" where
  "space_at_start table s =
     (case filter (\<lambda>w. take (length w) s = w) table of [] \<Rightarrow> 0 | w # ws \<Rightarrow> length w)"

text \<open>
  The string without the entries of \<open>table\<close> it starts with; \<open>k\<close> is the number of
  bytes still to drop of the entry being removed.
\<close>

fun strip_start :: "string list \<Rightarrow> nat \<Rightarrow> string \<Rightarrow> string" where
  "strip_start table k [] = []"
| "strip_start table (Suc k) (c # cs) = strip_start table k cs"
| "strip_start table 0 (c # cs) =
     (case space_at_start table (c # cs) of
        0 \<Rightarrow> c # cs
      | Suc k \<Rightarrow> strip_start table k cs)"

definition js_trim :: "string \<Rightarrow> string" where
  "js_trim s = rev (strip_start (map rev white_space) 0 (rev (strip_start white_space 0 s)))"

definition token_required :: http_response where
  "token_required = \<lparr>status = 400, body = ErrorBody ''token field is required.''\<rparr>"

text \<open>\<^verbatim>\<open>POST /api/token\<close>: the response and the new \<^verbatim>\<open>storedToken\<close>.\<close>

definition tok_post_api_token :: "jsval \<Rightarrow> jsval \<Rightarrow> http_response \<times> jsval" where
  "tok_post_api_token body_token st =
     (case body_token of
        JStr s \<Rightarrow>
          if \<not> truthy (JStr s) \<or> length (js_trim s) = 0 then (token_required, st)
          else (\<lparr>status = 200, body = OkBody ''Token stored. Ready to scan.''\<rparr>, JStr (js_trim s))
      | _ \<Rightarrow> (token_required, st))"

text \<open>
  \<^verbatim>\<open>POST /api/login\<close>: the response, the new \<^verbatim>\<open>storedToken\<close> and the calls made. The
  assignment to \<^verbatim>\<open>storedToken\<close> comes before the test that throws.
\<close>

definition tok_post_api_login ::
  "jsval \<Rightarrow> jsval \<Rightarrow> login_data promise \<Rightarrow> jsval \<Rightarrow> http_response \<times> jsval \<times> event list" where
  "tok_post_api_login email key reply st =
     (if \<not> truthy email \<or> \<not> truthy key
      then (\<lparr>status = 400, body = ErrorBody ''email and key are required.''\<rparr>, st, [])
      else
        (case reply of
           Resolved d \<Rightarrow>
             (let st' = js_or (access_token d) (token d) in
              if \<not> truthy st'
              then (\<lparr>status = 401,
                      body = ErrorBody (''Authentication failed: '' @ ''No token returned by Copyleaks.'')\<rparr>,
                    st', [PostLogin email key])
              else (\<lparr>status = 200, body = OkBody ''Authenticated. Token stored server-side.''\<rparr>,
                    st', [PostLogin email key]))
         | Rejected err \<Rightarrow>
             (\<lparr>status = 401, body = ErrorBody (''Authentication failed: '' @ error_msg err)\<rparr>,
              st, [PostLogin email key])))"

text \<open>\<^verbatim>\<open>POST /api/detect\<close> of \<^verbatim>\<open>part_001\<close>: no refresh and no retry.\<close>

definition tok_post_api_detect ::
  "string \<Rightarrow> detect_data promise \<Rightarrow> jsval \<Rightarrow> detect_request \<Rightarrow> http_response \<times> event list" where
  "tok_post_api_detect uuid check st req =
     (if \<not> truthy st
      then (\<lparr>status = 401, body = ErrorBody ''No token set. POST /api/token first.''\<rparr>, [])
      else
        (case req_file req of
           None \<Rightarrow> (no_image, [])
         | Some f \<Rightarrow>
             (let scanId = uuid;
                  sandbox = (body_sandbox req = JStr ''true'');
                  form = build_form f sandbox;
                  ev = [PostCheck scanId form st]
              in
                case check of
                  Resolved d \<Rightarrow> (json_reply d, ev)
                | Rejected err \<Rightarrow> (error_reply err, ev))))"

definition tok_get_api_status :: "jsval \<Rightarrow> http_response" where
  "tok_get_api_status st = \<lparr>status = 200, body = TokenSetBody (st \<noteq> JNull)\<rparr>"

section \<open>The upload middleware\<close>

text \<open>
  \<^verbatim>\<open>multer({ limits: { fileSize: 32 * 1024 * 1024 } })\<close> and \<^verbatim>\<open>upload.single('image')\<close>
  stand before the handler in all three files. multer and Express are libraries, not
  code of the repository; of them the model has what the source configures: a file part
  longer than the limit makes the middleware pass an error (code LIMIT_FILE_SIZE) on
  instead of calling the handler, and since no file installs an error-handling
  middleware, the error reaches the default error handler of Express, which answers with
  the error's \<^verbatim>\<open>status\<close> or \<^verbatim>\<open>statusCode\<close> when it has one and with 500 when, as here, it
  has none.
\<close>

definition fileSize :: nat where
  "fileSize = 32 * 1024 * 1024"

datatype multer_error = LIMIT_FILE_SIZE

definition upload_single :: "detect_request \<Rightarrow> multer_error + detect_request" where
  "upload_single raw =
     (case req_file raw of
        None \<Rightarrow> Inr raw
      | Some f \<Rightarrow> if length (buffer f) > fileSize then Inl LIMIT_FILE_SIZE else Inr raw)"

definition default_error_handler :: "multer_error \<Rightarrow> http_response" where
  "default_error_handler e = \<lparr>status = 500, body = FrameworkErrorPage\<rparr>"

text \<open>The route \<^verbatim>\<open>app.post('/api/detect', upload.single('image'), handler)\<close> of each file.\<close>

definition srv_route_detect ::
  "environment \<Rightarrow> 'a detect_io_scheme \<Rightarrow> credential \<Rightarrow> detect_request \<Rightarrow> outcome" where
  "srv_route_detect env io st raw =
     (case upload_single raw of
        Inl e \<Rightarrow> \<lparr>response = default_error_handler e, store = st, trace = []\<rparr>
      | Inr req \<Rightarrow> srv_post_api_detect env io st req)"

definition hist_route_detect ::
  "environment \<Rightarrow> hist_io \<Rightarrow> credential \<Rightarrow> scan_row list option \<Rightarrow> detect_request \<Rightarrow>
     hist_outcome" where
  "hist_route_detect env io st db raw =
     (case upload_single raw of
        Inl e \<Rightarrow> \<lparr>response = default_error_handler e, store = st, trace = [], database = db\<rparr>
      | Inr req \<Rightarrow> hist_post_api_detect env io st db req)"

definition tok_route_detect ::
  "string \<Rightarrow> detect_data promise \<Rightarrow> jsval \<Rightarrow> detect_request \<Rightarrow> http_response \<times> event list" where
  "tok_route_detect uuid check st raw =
     (case upload_single raw of
        Inl e \<Rightarrow> (default_error_handler e, [])
      | Inr req \<Rightarrow> tok_post_api_detect uuid check st req)"

section \<open>Reading a trace\<close>

text \<open>A request to the detection endpoint, with or without a body.\<close>

fun is_PostCheck :: "event \<Rightarrow> bool" where
  "is_PostCheck (PostCheck scanId form tok) = True"
| "is_PostCheck (PostCheckSpent scanId tok) = True"
| "is_PostCheck e = False"

fun is_CallAuthenticate :: "event \<Rightarrow> bool" where
  "is_CallAuthenticate CallAuthenticate = True"
| "is_CallAuthenticate e = False"

text \<open>A response that carries a detection payload: the handler's \<^verbatim>\<open>res.json(data)\<close>.\<close>

definition succeeded :: "http_response \<Rightarrow> bool" where
  "succeeded r = (case body r of JsonData d \<Rightarrow> status r = 200 | _ \<Rightarrow> False)"

text \<open>The value of the field \<^verbatim>\<open>sandbox\<close> in each form sent to the detection endpoint.\<close>

fun sandbox_sent :: "event list \<Rightarrow> form_value option list" where
  "sandbox_sent [] = []"
| "sandbox_sent (PostCheck scanId form tok # es) = map_of form ''sandbox'' # sandbox_sent es"
| "sandbox_sent (e # es) = sandbox_sent es"

text \<open>The arguments of each call of \<^verbatim>\<open>saveScan\<close>, and the two dimensions of each INSERT.\<close>

fun saved :: "event list \<Rightarrow> scan_args list" where
  "saved [] = []"
| "saved (CallSaveScan a # es) = a # saved es"
| "saved (e # es) = saved es"

fun inserted_dims :: "event list \<Rightarrow> (int option \<times> int option) list" where
  "inserted_dims [] = []"
| "inserted_dims (QueryInsert sid fn ap hp w h sb # es) = (w, h) # inserted_dims es"
| "inserted_dims (e # es) = inserted_dims es"

text \<open>
  \<open>a\<close> holds what the handler extracts from the payload \<open>d\<close>: the defaults of
  \<^verbatim>\<open>summary.ai\<close> and \<^verbatim>\<open>summary.human\<close>, and the dimensions as they are.
\<close>

definition extracted_from :: "detect_data \<Rightarrow> scan_args \<Rightarrow> bool" where
  "extracted_from d a =
     (a_aiPct a = (case chain (summary d) ai of None \<Rightarrow> 0 | Some v \<Rightarrow> v) \<and>
      a_humanPct a = (case chain (summary d) human of None \<Rightarrow> 100 - a_aiPct a | Some v \<Rightarrow> v) \<and>
      a_width a = chain (imageInfo d) width \<and>
      a_height a = chain (imageInfo d) height)"

text \<open>The history records in a response body: an error body holds none.\<close>

fun rows_of :: "http_response \<Rightarrow> scan_row list" where
  "rows_of r = (case body r of RowsBody rs \<Rightarrow> rs | _ \<Rightarrow> [])"

text \<open>
  The ways \<^verbatim>\<open>authenticate\<close> fails: a variable of the configuration is missing, or the
  POST to the identity endpoint is rejected (network error, reply outside 2xx).
\<close>

fun is_Rejected :: "'a promise \<Rightarrow> bool" where
  "is_Rejected (Rejected e) = True"
| "is_Rejected (Resolved d) = False"

definition authenticate_fails :: "environment \<Rightarrow> login_data promise \<Rightarrow> bool" where
  "authenticate_fails env reply =
     (\<not> truthy (COPYLEAKS_EMAIL env) \<or> \<not> truthy (COPYLEAKS_API_KEY env) \<or> is_Rejected reply)"

section \<open>Concrete inputs\<close>

definition ex_env :: environment where
  "ex_env = \<lparr>COPYLEAKS_EMAIL = JStr ''a@b.c'', COPYLEAKS_API_KEY = JStr ''key''\<rparr>"

definition ex_file :: upload_file where
  "ex_file = \<lparr>buffer = [0x89, 0x50, 0x4E, 0x47], originalname = ''cat.png'',
              mimetype = ''image/png''\<rparr>"

definition ex_req :: detect_request where
  "ex_req = \<lparr>req_file = Some ex_file, body_sandbox = JStr ''true''\<rparr>"

definition ex_data :: detect_data where
  "ex_data = \<lparr>summary = Some \<lparr>ai = Some 73, human = None\<rparr>, imageInfo = None,
              other_fields = []\<rparr>"

definition ex_login :: "login_data promise" where
  "ex_login = Resolved \<lparr>access_token = JStr ''tok2'', token = JUndefined\<rparr>"

definition ex_no_token :: "login_data promise" where
  "ex_no_token = Resolved \<lparr>access_token = JUndefined, token = JUndefined\<rparr>"

definition ex_401 :: js_error where
  "ex_401 = \<lparr>err_response = Some \<lparr>resp_status = 401, resp_message = Some ''Unauthorized''\<rparr>,
             err_message = ''Request failed with status code 401''\<rparr>"

definition ex_neterr :: js_error where
  "ex_neterr = \<lparr>err_response = None, err_message = ''connect ECONNREFUSED''\<rparr>"

definition ex_cred :: credential where
  "ex_cred = \<lparr>storedToken = JStr ''tok1'', tokenFetchedAt = Some 0\<rparr>"

text \<open>An upload one byte over the limit, and a table of two scans.\<close>

definition ex_big_req :: detect_request where
  "ex_big_req =
     \<lparr>req_file = Some \<lparr>buffer = replicate (fileSize + 1) 0, originalname = ''big.png'',
                          mimetype = ''image/png''\<rparr>,
      body_sandbox = JStr ''false''\<rparr>"

definition ex_row :: "nat \<Rightarrow> int \<Rightarrow> scan_row" where
  "ex_row i t =
     \<lparr>row_id = i, scan_id = ''uuid-0'', filename = ''cat.png'', ai_pct = 73, human_pct = 27,
      row_width = None, row_height = None, row_sandbox = True, created_at = t\<rparr>"

text \<open>
  A request at time 1000 with a fresh token: the first attempt is answered 2xx and the
  INSERT succeeds. The variants change one answer each.
\<close>

definition ex_io :: detect_io where
  "ex_io = \<lparr>now_stale = 1000, login_refresh = ex_login, now_refresh = 1001,
            randomUUID = ''uuid-1'', check_first = Resolved ex_data, login_retry = ex_login,
            now_retry = 1002, check_retry = Resolved ex_data\<rparr>"

definition ex_hio :: hist_io where
  "ex_hio = \<lparr>now_stale = 1000, login_refresh = ex_login, now_refresh = 1001,
             randomUUID = ''uuid-1'', check_first = Resolved ex_data, login_retry = ex_login,
             now_retry = 1002, check_retry = Resolved ex_data,
             insert_first = QueryOk (1, 5000), insert_retry = QueryOk (1, 5000)\<rparr>"

definition ex_form :: form_data where
  "ex_form =
     [(''image'', FileField [0x89, 0x50, 0x4E, 0x47] ''cat.png'' ''image/png''),
      (''filename'', TextField ''cat.png''),
      (''sandbox'', TextField ''true''),
      (''model'', TextField ''ai-image-1-ultra'')]"

definition ex_rows :: "scan_row list" where
  "ex_rows = [ex_row 1 10, ex_row 2 20]"

section \<open>Facts about the calls each part makes\<close>

lemmas ex_defs = ex_env_def ex_file_def ex_req_def ex_data_def ex_login_def ex_no_token_def
  ex_401_def ex_neterr_def ex_cred_def ex_io_def ex_hio_def ex_form_def

lemmas reply_defs = not_authenticated_def no_image_def reauth_failed_def error_reply_def
  json_reply_def error_status_def error_msg_def is_401_def

lemmas handler_defs = srv_post_api_detect_def hist_post_api_detect_def hist_catch_def
  tok_post_api_detect_def refreshIfNeeded_def authenticate_def saveScan_def scan_args_of_def
  is_stale_def TOKEN_TTL_MS_def build_form_def String_of_bool_def js_or_def chain_def
  nullish_def or_null_def Let_def

lemma sandbox_sent_append: "sandbox_sent (xs @ ys) = sandbox_sent xs @ sandbox_sent ys"
  by (induction xs rule: sandbox_sent.induct) simp_all

lemma sandbox_sent_authenticate: "sandbox_sent (snd (authenticate env reply now st)) = []"
  by (simp add: authenticate_def Let_def split: promise.split)

lemma sandbox_sent_refresh: "sandbox_sent (snd (refreshIfNeeded env now0 reply now st)) = []"
  by (simp add: refreshIfNeeded_def sandbox_sent_authenticate)

lemma sandbox_sent_saveScan: "sandbox_sent (snd (snd (saveScan db res a))) = []"
  by (simp add: saveScan_def Let_def split: option.split query.split)

lemma sandbox_build_form:
  "map_of (build_form f b) ''sandbox'' = Some (TextField (String_of_bool b))"
  by (simp add: build_form_def)

lemmas sandbox_simps = sandbox_sent_append sandbox_sent_authenticate sandbox_sent_refresh
  sandbox_sent_saveScan sandbox_build_form


lemma checks_authenticate: "filter is_PostCheck (snd (authenticate env reply now st)) = []"
  by (simp add: authenticate_def Let_def split: promise.split)

lemma checks_refresh: "filter is_PostCheck (snd (refreshIfNeeded env now0 reply now st)) = []"
  by (simp add: refreshIfNeeded_def checks_authenticate)

lemma checks_saveScan: "filter is_PostCheck (snd (snd (saveScan db res a))) = []"
  by (simp add: saveScan_def Let_def split: option.split query.split)

lemma calls_authenticate:
  "filter is_CallAuthenticate (snd (authenticate env reply now st)) = [CallAuthenticate]"
  by (simp add: authenticate_def Let_def split: promise.split)

lemma calls_saveScan: "filter is_CallAuthenticate (snd (snd (saveScan db res a))) = []"
  by (simp add: saveScan_def Let_def split: option.split query.split)

lemma sorted_wrt_newest_first:
  "sorted_wrt (\<lambda>a b. created_at b \<le> created_at a) (newest_first rows)"
proof -
  have "sorted (map (\<lambda>r. - created_at r) (newest_first rows))"
    unfolding newest_first_def by (rule sorted_sort_key)
  then show ?thesis
    by (simp add: sorted_map sorted_wrt_iff_nth_less)
qed

lemma set_newest_first: "set (newest_first rows) = set rows"
  by (simp add: newest_first_def)

lemma truthy_after_authenticate:
  "truthy (storedToken a) = truthy (storedToken b) \<Longrightarrow>
   truthy (storedToken (fst (authenticate env r n a))) =
   truthy (storedToken (fst (authenticate env r n b)))"
  by (simp add: authenticate_def Let_def split: promise.split)

lemma saved_append: "saved (xs @ ys) = saved xs @ saved ys"
  by (induction xs rule: saved.induct) simp_all

lemma saved_authenticate: "saved (snd (authenticate env reply now st)) = []"
  by (simp add: authenticate_def Let_def split: promise.split)

lemma saved_refresh: "saved (snd (refreshIfNeeded env now0 reply now st)) = []"
  by (simp add: refreshIfNeeded_def saved_authenticate)

lemma saved_saveScan: "saved (snd (snd (saveScan db res a))) = [a]"
  by (simp add: saveScan_def Let_def split: option.split query.split)

lemmas saved_simps = saved_append saved_authenticate saved_refresh saved_saveScan

lemma inserted_append: "inserted_dims (xs @ ys) = inserted_dims xs @ inserted_dims ys"
  by (induction xs rule: inserted_dims.induct) simp_all

lemma inserted_authenticate: "inserted_dims (snd (authenticate env reply now st)) = []"
  by (simp add: authenticate_def Let_def split: promise.split)

lemma inserted_refresh: "inserted_dims (snd (refreshIfNeeded env now0 reply now st)) = []"
  by (simp add: refreshIfNeeded_def inserted_authenticate)

lemma inserted_saveScan:
  "inserted_dims (snd (snd (saveScan db res a))) =
     (if db = None then [] else [(or_null (a_width a), or_null (a_height a))])"
  by (simp add: saveScan_def Let_def split: option.split query.split)

lemmas inserted_simps = inserted_append inserted_authenticate inserted_refresh inserted_saveScan

lemma saveScan_error_not_401:
  "fst (snd (saveScan db res a)) = Some e \<Longrightarrow> \<not> is_401 e"
  by (auto simp: saveScan_def Let_def is_401_def split: option.splits query.splits)

lemma saveScan_error:
  "fst (snd (saveScan db res a)) =
     (case db of
        None \<Rightarrow> None
      | Some rows \<Rightarrow>
          (case res of
             QueryOk v \<Rightarrow> None
           | QueryFailed m \<Rightarrow> Some \<lparr>err_response = None, err_message = m\<rparr>))"
  by (simp add: saveScan_def Let_def split: option.split query.split)

lemma saveScan_failed_keeps_table:
  "fst (snd (saveScan db res a)) = Some e \<Longrightarrow> fst (saveScan db res a) = db"
  by (auto simp: saveScan_def Let_def split: option.splits query.splits)

lemma hist_catch_not_401:
  "\<not> is_401 err \<Longrightarrow>
   hist_catch env io st1 db f sid sb ev err =
     \<lparr>response = error_reply err, store = st1, trace = ev, database = db\<rparr>"
  by (simp add: hist_catch_def)

lemma saved_hist_catch:
  "saved (trace (hist_catch env io st1 db f sid sb ev err)) =
     saved ev @
     (if is_401 err \<and> truthy (storedToken (fst (authenticate env (login_retry io) (now_retry io) st1)))
      then (case check_retry io of Resolved d \<Rightarrow> [scan_args_of sid f sb d] | Rejected e \<Rightarrow> [])
      else [])"
  unfolding hist_catch_def
  by (simp add: Let_def split_beta saved_simps split: option.split promise.split)

lemma saved_hist:
  "saved (trace (hist_post_api_detect env io st db req)) =
     (let st1 = fst (refreshIfNeeded env (now_stale io) (login_refresh io) (now_refresh io) st);
          sb = (body_sandbox req = JStr ''true'')
      in if \<not> truthy (storedToken st1) then []
         else (case req_file req of
                 None \<Rightarrow> []
               | Some f \<Rightarrow>
                   (case check_first io of
                      Resolved d \<Rightarrow> [scan_args_of (randomUUID io) f sb d]
                    | Rejected err \<Rightarrow>
                        if is_401 err \<and>
                           truthy (storedToken (fst (authenticate env (login_retry io) (now_retry io) st1)))
                        then (case check_retry io of
                                Resolved d \<Rightarrow> [scan_args_of (randomUUID io) f sb d]
                              | Rejected e \<Rightarrow> [])
                        else [])))"
  unfolding hist_post_api_detect_def
  by (simp add: Let_def split_beta saved_simps saved_hist_catch saveScan_error_not_401
      hist_catch_not_401 split: option.split promise.split)

lemma response_hist_catch:
  "response (hist_catch env io st1 db f sid sb ev err) =
     (if is_401 err then
        (if \<not> truthy (storedToken (fst (authenticate env (login_retry io) (now_retry io) st1)))
         then reauth_failed
         else (case check_retry io of
                 Resolved d \<Rightarrow>
                   (case fst (snd (saveScan db (insert_retry io) (scan_args_of sid f sb d))) of
                      None \<Rightarrow> json_reply d
                    | Some e \<Rightarrow> error_reply e)
               | Rejected e \<Rightarrow> error_reply e))
      else error_reply err)"
  unfolding hist_catch_def
  by (simp add: Let_def split_beta split: option.split promise.split)

lemma response_hist:
  "response (hist_post_api_detect env io st db req) =
     (let st1 = fst (refreshIfNeeded env (now_stale io) (login_refresh io) (now_refresh io) st);
          sb = (body_sandbox req = JStr ''true'')
      in if \<not> truthy (storedToken st1) then not_authenticated
         else (case req_file req of
                 None \<Rightarrow> no_image
               | Some f \<Rightarrow>
                   (case check_first io of
                      Resolved d \<Rightarrow>
                        (case fst (snd (saveScan db (insert_first io)
                                 (scan_args_of (randomUUID io) f sb d))) of
                           None \<Rightarrow> json_reply d
                         | Some e \<Rightarrow> error_reply e)
                    | Rejected err \<Rightarrow>
                        response (hist_catch env io st1 db f (randomUUID io) sb [] err))))"
  unfolding hist_post_api_detect_def
  by (simp add: Let_def split_beta saveScan_error_not_401 hist_catch_not_401 response_hist_catch
      split: option.split promise.split)

lemma inserted_hist_catch:
  "inserted_dims (trace (hist_catch env io st1 db f sid sb ev err)) =
     inserted_dims ev @
     (if db = None then []
      else map (\<lambda>a. (or_null (a_width a), or_null (a_height a)))
             (saved (trace (hist_catch env io st1 db f sid sb [] err))))"
  unfolding hist_catch_def
  by (simp add: Let_def split_beta saved_simps inserted_simps split: option.split promise.split)

lemma inserted_hist:
  "inserted_dims (trace (hist_post_api_detect env io st db req)) =
     (if db = None then []
      else map (\<lambda>a. (or_null (a_width a), or_null (a_height a)))
             (saved (trace (hist_post_api_detect env io st db req))))"
  unfolding hist_post_api_detect_def
  by (simp add: Let_def split_beta saved_simps inserted_simps saved_hist_catch
      inserted_hist_catch saveScan_error_not_401 hist_catch_not_401 saveScan_failed_keeps_table
      split: option.split promise.split)

lemma succeeded_simps:
  "succeeded (json_reply d)" "\<not> succeeded (error_reply e)" "\<not> succeeded not_authenticated"
  "\<not> succeeded no_image" "\<not> succeeded reauth_failed"
  by (simp_all add: succeeded_def json_reply_def error_reply_def not_authenticated_def
      no_image_def reauth_failed_def)

lemma error_reply_db:
  "error_reply \<lparr>err_response = None, err_message = m\<rparr> = \<lparr>status = 500, body = ErrorBody m\<rparr>"
  by (simp add: error_reply_def error_status_def error_msg_def)

lemma extracted_from_scan_args_of: "extracted_from d (scan_args_of sid f sb d)"
  by (simp add: extracted_from_def scan_args_of_def nullish_def Let_def split: option.split)

lemma or_null_not_zero: "or_null v \<noteq> Some 0"
  by (simp add: or_null_def split: option.split)

lemma authenticate_failure_keeps_store:
  "authenticate_fails env reply \<Longrightarrow> fst (authenticate env reply now st) = st"
  by (cases reply) (auto simp: authenticate_fails_def authenticate_def Let_def)

lemma token_has_timestamp_step:
  "(truthy (storedToken st) \<longrightarrow> tokenFetchedAt st \<noteq> None) \<and>
   (tokenFetchedAt st = None \<longrightarrow> storedToken st = JNull) \<Longrightarrow>
   (truthy (storedToken (fst (authenticate env reply now st))) \<longrightarrow>
      tokenFetchedAt (fst (authenticate env reply now st)) \<noteq> None) \<and>
   (tokenFetchedAt (fst (authenticate env reply now st)) = None \<longrightarrow>
      storedToken (fst (authenticate env reply now st)) = JNull)"
  by (cases reply) (auto simp: authenticate_def Let_def)

lemma token_has_timestamp_all:
  "(truthy (storedToken st) \<longrightarrow> tokenFetchedAt st \<noteq> None) \<and>
   (tokenFetchedAt st = None \<longrightarrow> storedToken st = JNull) \<Longrightarrow>
   (truthy (storedToken (authenticate_all st calls)) \<longrightarrow>
      tokenFetchedAt (authenticate_all st calls) \<noteq> None) \<and>
   (tokenFetchedAt (authenticate_all st calls) = None \<longrightarrow>
      storedToken (authenticate_all st calls) = JNull)"
proof (induction calls arbitrary: st)
  case Nil
  then show ?case by simp
next
  case (Cons c calls)
  obtain env reply now where c: "c = (env, reply, now)"
    by (cases c) auto
  show ?case
    unfolding c authenticate_all.simps
    by (rule Cons.IH) (rule token_has_timestamp_step, rule Cons.prems)
qed

lemma reachable_token_has_timestamp:
  "(truthy (storedToken (authenticate_all initial_credential calls)) \<longrightarrow>
      tokenFetchedAt (authenticate_all initial_credential calls) \<noteq> None) \<and>
   (tokenFetchedAt (authenticate_all initial_credential calls) = None \<longrightarrow>
      storedToken (authenticate_all initial_credential calls) = JNull)"
  by (rule token_has_timestamp_all) (simp add: initial_credential_def)

lemma token_of_white_space_refused:
  "tok_post_api_token (JStr [CHR 0xC2, CHR 0xA0]) st = (token_required, st) \<and>
   tok_post_api_token (JStr [CHR 0x20, CHR 0xE2, CHR 0x80, CHR 0xA8, CHR 0x09]) st =
     (token_required, st) \<and>
   snd (tok_post_api_token (JStr ('' a b'' @ [CHR 0xEF, CHR 0xBB, CHR 0xBF])) st) = JStr ''a b''"
  by (simp add: tok_post_api_token_def js_trim_def white_space_def space_at_start_def)

lemma authenticate_stores_reply:
  "truthy (COPYLEAKS_EMAIL env) \<Longrightarrow> truthy (COPYLEAKS_API_KEY env) \<Longrightarrow>
   storedToken (fst (authenticate env (Resolved d) now st)) = js_or (access_token d) (token d)"
  by (simp add: authenticate_def Let_def)

lemma authenticate_starts_with_call:
  "\<exists>rest. snd (authenticate env reply now st) = CallAuthenticate # rest"
  by (simp add: authenticate_def Let_def split: promise.split)

lemma trace_srv_prefix:
  "\<exists>rest. trace (srv_post_api_detect env io st req) =
     snd (refreshIfNeeded env (now_stale io) (login_refresh io) (now_refresh io) st) @ rest"
  unfolding srv_post_api_detect_def
  by (simp add: Let_def split_beta split: option.split promise.split)

lemma srv_no_token:
  "\<not> truthy (storedToken (fst (refreshIfNeeded env (now_stale io) (login_refresh io) (now_refresh io) st))) \<Longrightarrow>
   srv_post_api_detect env io st req =
     \<lparr>response = not_authenticated,
      store = fst (refreshIfNeeded env (now_stale io) (login_refresh io) (now_refresh io) st),
      trace = snd (refreshIfNeeded env (now_stale io) (login_refresh io) (now_refresh io) st)\<rparr>"
  unfolding srv_post_api_detect_def by (simp add: Let_def split_beta)

lemma srv_first_check:
  "truthy (storedToken (fst (refreshIfNeeded env (now_stale io) (login_refresh io) (now_refresh io) st))) \<Longrightarrow>
   req_file req = Some f \<Longrightarrow>
   \<exists>rest. filter is_PostCheck (trace (srv_post_api_detect env io st req)) =
     PostCheck (randomUUID io) (build_form f (body_sandbox req = JStr ''true''))
       (storedToken (fst (refreshIfNeeded env (now_stale io) (login_refresh io) (now_refresh io) st)))
     # rest"
  unfolding srv_post_api_detect_def
  by (simp add: Let_def split_beta checks_refresh split: promise.split)

section \<open>The claims\<close>

text \<open>
  C1. When the first POST to the detection endpoint is rejected with status 401, the
  handlers of \<^verbatim>\<open>part_000\<close> (\<open>h\<close>) and \<^verbatim>\<open>server.js\<close> (\<open>s\<close>) call \<^verbatim>\<open>authenticate\<close> once.
  A login that yields a token leaves that token in the store. If no token is held after
  the call, there is no retry and the response is 401 \<^verbatim>\<open>Re-authentication failed.\<close>
  If a token is held, both make one more request to the detection endpoint of the same
  scan id, and what comes back for it decides the response. In \<^verbatim>\<open>part_000\<close> that
  request carries a form built anew from the same image bytes, file name, sandbox flag
  and model, and nothing follows it but the calls of \<^verbatim>\<open>saveScan\<close>. In \<^verbatim>\<open>server.js\<close> it
  is made with the form object that the first POST has already read, so the payload is
  posted once only and is not resubmitted.
\<close>

theorem single_retry_after_401:
  fixes env :: environment and io :: hist_io and st :: credential
    and db :: "scan_row list option" and req :: detect_request and f :: upload_file
  defines "st1 \<equiv> fst (refreshIfNeeded env (now_stale io) (login_refresh io) (now_refresh io) st)"
  defines "ev0 \<equiv> snd (refreshIfNeeded env (now_stale io) (login_refresh io) (now_refresh io) st)"
  defines "st2 \<equiv> fst (authenticate env (login_retry io) (now_retry io) st1)"
  defines "ev2 \<equiv> snd (authenticate env (login_retry io) (now_retry io) st1)"
  defines "first \<equiv> PostCheck (randomUUID io) (build_form f (body_sandbox req = JStr ''true''))
                     (storedToken st1)"
  defines "again \<equiv> PostCheck (randomUUID io) (build_form f (body_sandbox req = JStr ''true''))
                     (storedToken st2)"
  defines "h \<equiv> hist_post_api_detect env io st db req"
  defines "s \<equiv> srv_post_api_detect env io st req"
  assumes attempt: "truthy (storedToken st1)" "req_file req = Some f"
    and rejected: "check_first io = Rejected err" "is_401 err"
  shows "filter is_CallAuthenticate ev2 = [CallAuthenticate] \<and>
         filter is_PostCheck ev2 = [] \<and>
         (truthy (COPYLEAKS_EMAIL env) \<and> truthy (COPYLEAKS_API_KEY env) \<and>
          login_retry io = Resolved d \<and> truthy (js_or (access_token d) (token d)) \<longrightarrow>
            storedToken st2 = js_or (access_token d) (token d) \<and> truthy (storedToken st2)) \<and>
         (if truthy (storedToken st2)
          then (\<exists>evs. trace h = ev0 @ [first] @ ev2 @ [again] @ evs \<and>
                      filter is_PostCheck evs = [] \<and> filter is_CallAuthenticate evs = []) \<and>
               trace s = ev0 @ [first] @ ev2 @ [PostCheckSpent (randomUUID io) (storedToken st2)] \<and>
               filter is_PostCheck (trace h) = [first, again] \<and>
               filter is_PostCheck (trace s) =
                 [first, PostCheckSpent (randomUUID io) (storedToken st2)] \<and>
               sandbox_sent (trace s) =
                 [Some (TextField (String_of_bool (body_sandbox req = JStr ''true'')))] \<and>
               response s =
                 (case check_retry io of
                    Resolved d \<Rightarrow> json_reply d
                  | Rejected e \<Rightarrow> error_reply e) \<and>
               response h =
                 (case check_retry io of
                    Resolved d \<Rightarrow>
                      (case fst (snd (saveScan db (insert_retry io)
                               (scan_args_of (randomUUID io) f (body_sandbox req = JStr ''true'') d))) of
                         None \<Rightarrow> json_reply d
                       | Some e \<Rightarrow> error_reply e)
                  | Rejected e \<Rightarrow> error_reply e)
          else trace h = ev0 @ [first] @ ev2 \<and> trace s = ev0 @ [first] @ ev2 \<and>
               response h = reauth_failed \<and> response s = reauth_failed)"
proof -
  have hist: "h = hist_catch env io st1 db f (randomUUID io) (body_sandbox req = JStr ''true'')
                   (ev0 @ [first]) err"
    using attempt rejected
    unfolding h_def hist_post_api_detect_def st1_def ev0_def first_def
    by (simp add: Let_def split_beta)
  have hist_no: "\<not> truthy (storedToken st2) \<Longrightarrow>
      trace h = ev0 @ [first] @ ev2 \<and> response h = reauth_failed"
    using rejected unfolding hist hist_catch_def st2_def ev2_def
    by (simp add: Let_def split_beta)
  have hist_yes: "truthy (storedToken st2) \<Longrightarrow>
      trace h = ev0 @ [first] @ ev2 @ [again] @
        (case check_retry io of
           Resolved d \<Rightarrow> snd (snd (saveScan db (insert_retry io)
                 (scan_args_of (randomUUID io) f (body_sandbox req = JStr ''true'') d)))
         | Rejected e \<Rightarrow> []) \<and>
      response h =
        (case check_retry io of
           Resolved d \<Rightarrow>
             (case fst (snd (saveScan db (insert_retry io)
                      (scan_args_of (randomUUID io) f (body_sandbox req = JStr ''true'') d))) of
                None \<Rightarrow> json_reply d
              | Some e \<Rightarrow> error_reply e)
         | Rejected e \<Rightarrow> error_reply e)"
    using rejected unfolding hist hist_catch_def st2_def ev2_def again_def
    by (simp add: Let_def split_beta split: promise.split option.split)
  have srv_no: "\<not> truthy (storedToken st2) \<Longrightarrow>
      trace s = ev0 @ [first] @ ev2 \<and> response s = reauth_failed"
    using attempt rejected
    unfolding s_def srv_post_api_detect_def st1_def ev0_def first_def st2_def ev2_def
    by (simp add: Let_def split_beta)
  have srv_yes: "truthy (storedToken st2) \<Longrightarrow>
      trace s = ev0 @ [first] @ ev2 @ [PostCheckSpent (randomUUID io) (storedToken st2)] \<and>
      response s = (case check_retry io of Resolved d \<Rightarrow> json_reply d | Rejected e \<Rightarrow> error_reply e)"
    using attempt rejected
    unfolding s_def srv_post_api_detect_def st1_def ev0_def first_def st2_def ev2_def again_def
    by (simp add: Let_def split_beta split: promise.split)
  have ev0: "filter is_PostCheck ev0 = []"
    unfolding ev0_def by (rule checks_refresh)
  have ev2: "filter is_PostCheck ev2 = []" "filter is_CallAuthenticate ev2 = [CallAuthenticate]"
    unfolding ev2_def by (rule checks_authenticate, rule calls_authenticate)
  have fa: "is_PostCheck first" "is_PostCheck again"
    by (simp_all add: first_def again_def)
  have yields: "truthy (COPYLEAKS_EMAIL env) \<and> truthy (COPYLEAKS_API_KEY env) \<and>
      login_retry io = Resolved d \<and> truthy (js_or (access_token d) (token d)) \<longrightarrow>
      storedToken st2 = js_or (access_token d) (token d) \<and> truthy (storedToken st2)"
    unfolding st2_def by (auto simp: authenticate_stores_reply)
  show ?thesis
  proof (cases "truthy (storedToken st2)")
    case True
    let ?evs = "case check_retry io of
           Resolved d \<Rightarrow> snd (snd (saveScan db (insert_retry io)
                 (scan_args_of (randomUUID io) f (body_sandbox req = JStr ''true'') d)))
         | Rejected e \<Rightarrow> []"
    have tail: "filter is_PostCheck ?evs = []" "filter is_CallAuthenticate ?evs = []"
      by (simp_all add: checks_saveScan calls_saveScan split: promise.split)
    have "\<exists>evs. trace h = ev0 @ [first] @ ev2 @ [again] @ evs \<and>
                filter is_PostCheck evs = [] \<and> filter is_CallAuthenticate evs = []"
      using hist_yes[OF True] tail by blast
    moreover have "filter is_PostCheck (trace h) = [first, again]"
      using hist_yes[OF True] tail ev0 ev2 fa by simp
    moreover have "filter is_PostCheck (trace s) =
        [first, PostCheckSpent (randomUUID io) (storedToken st2)]"
      using srv_yes[OF True] ev0 ev2 fa by simp
    moreover have "sandbox_sent (trace s) =
        [Some (TextField (String_of_bool (body_sandbox req = JStr ''true'')))]"
      using srv_yes[OF True]
      by (simp add: ev0_def ev2_def first_def sandbox_simps)
    ultimately show ?thesis
      using True ev2 yields hist_yes[OF True] srv_yes[OF True] by simp
  next
    case False
    then show ?thesis
      using ev2 yields hist_no srv_no by simp
  qed
qed

theorem single_retry_after_401_witness:
  "is_401 ex_401 \<and>
   filter is_PostCheck
     (trace (hist_post_api_detect ex_env (ex_hio\<lparr>check_first := Rejected ex_401\<rparr>) ex_cred
        (Some []) ex_req)) =
     [PostCheck ''uuid-1'' ex_form (JStr ''tok1''), PostCheck ''uuid-1'' ex_form (JStr ''tok2'')] \<and>
   trace (srv_post_api_detect ex_env (ex_hio\<lparr>check_first := Rejected ex_401\<rparr>) ex_cred ex_req) =
     [PostCheck ''uuid-1'' ex_form (JStr ''tok1''), CallAuthenticate,
      PostLogin (JStr ''a@b.c'') (JStr ''key''), PostCheckSpent ''uuid-1'' (JStr ''tok2'')] \<and>
   response (hist_post_api_detect ex_env (ex_hio\<lparr>check_first := Rejected ex_401\<rparr>) ex_cred
        (Some []) ex_req) = json_reply ex_data"
  using single_retry_after_401 [where env = ex_env and st = ex_cred and req = ex_req
      and io = "ex_hio\<lparr>check_first := Rejected ex_401\<rparr>" and f = ex_file and err = ex_401
      and db = "Some []" and d = "\<lparr>access_token = JStr ''tok2'', token = JUndefined\<rparr>"]
  by (simp add: ex_defs handler_defs reply_defs)

text \<open>
  C2 (as amended). In \<^verbatim>\<open>part_000\<close> the call of \<^verbatim>\<open>saveScan\<close> is awaited inside the
  \<^verbatim>\<open>try\<close> block, before \<^verbatim>\<open>res.json(data)\<close>. When the INSERT fails after a 2xx answer
  of the detection endpoint, on the first attempt or on the retry, the error is caught by
  the handler's own \<^verbatim>\<open>catch\<close> and the caller gets status 500 with the message of the
  database error instead of the payload; the table is unchanged. The payload is returned
  when the INSERT succeeds, and when there is no database.
\<close>

theorem persistence_failure_reaches_caller:
  fixes env :: environment and io :: hist_io and st :: credential
    and db :: "scan_row list option" and req :: detect_request and f :: upload_file
  defines "h \<equiv> hist_post_api_detect env io st db req"
  defines "st1 \<equiv> fst (refreshIfNeeded env (now_stale io) (login_refresh io) (now_refresh io) st)"
  defines "st2 \<equiv> fst (authenticate env (login_retry io) (now_retry io) st1)"
  assumes attempt: "truthy (storedToken st1)" "req_file req = Some f"
  shows "(check_first io = Resolved d \<and> db = Some rows \<and> insert_first io = QueryFailed m \<longrightarrow>
            response h = \<lparr>status = 500, body = ErrorBody m\<rparr> \<and> database h = Some rows) \<and>
         (check_first io = Rejected err \<and> is_401 err \<and> truthy (storedToken st2) \<and>
          check_retry io = Resolved d \<and> db = Some rows \<and> insert_retry io = QueryFailed m \<longrightarrow>
            response h = \<lparr>status = 500, body = ErrorBody m\<rparr> \<and> database h = Some rows) \<and>
         (check_first io = Resolved d \<and> db = Some rows \<and> insert_first io = QueryOk v \<longrightarrow>
            response h = json_reply d) \<and>
         (check_first io = Resolved d \<and> db = None \<longrightarrow> response h = json_reply d)"
  using attempt
  unfolding h_def st1_def st2_def hist_post_api_detect_def hist_catch_def saveScan_def
  by (simp add: Let_def split_beta error_reply_db is_401_def split: prod.split)

theorem persistence_failure_reaches_caller_witness:
  "response (hist_post_api_detect ex_env (ex_hio\<lparr>insert_first := QueryFailed ''boom''\<rparr>) ex_cred
      (Some []) ex_req) = \<lparr>status = 500, body = ErrorBody ''boom''\<rparr> \<and>
   database (hist_post_api_detect ex_env (ex_hio\<lparr>insert_first := QueryFailed ''boom''\<rparr>) ex_cred
      (Some []) ex_req) = Some [] \<and>
   response (hist_post_api_detect ex_env ex_hio ex_cred None ex_req) = json_reply ex_data"
  using persistence_failure_reaches_caller [where env = ex_env and st = ex_cred and req = ex_req
      and io = "ex_hio\<lparr>insert_first := QueryFailed ''boom''\<rparr>" and f = ex_file
      and db = "Some []" and rows = "[]" and m = "''boom''" and d = ex_data]
    persistence_failure_reaches_caller [where env = ex_env and st = ex_cred and req = ex_req
      and io = ex_hio and f = ex_file and db = None and d = ex_data]
  by (simp add: ex_defs handler_defs reply_defs)

text \<open>
  The claim as stated fails: with a database whose INSERT fails with the message
  \<^verbatim>\<open>boom\<close>, a 2xx detection answer is turned into a 500 response.
\<close>

theorem persistence_failure_counterexample:
  "check_first (ex_hio\<lparr>insert_first := QueryFailed ''boom''\<rparr>) = Resolved ex_data \<and>
   response (hist_post_api_detect ex_env (ex_hio\<lparr>insert_first := QueryFailed ''boom''\<rparr>) ex_cred
      (Some []) ex_req) = \<lparr>status = 500, body = ErrorBody ''boom''\<rparr> \<and>
   response (hist_post_api_detect ex_env (ex_hio\<lparr>insert_first := QueryFailed ''boom''\<rparr>) ex_cred
      (Some []) ex_req) \<noteq> json_reply ex_data"
  by (simp add: ex_defs handler_defs reply_defs)

text \<open>
  C3 (as amended). In \<^verbatim>\<open>part_000\<close>, \<^verbatim>\<open>saveScan\<close> is called at most once per request,
  also when the retry after a 401 occurs, and at most one INSERT is sent. It is called
  exactly once when the response carries the detection payload. When the response is an
  error, it has not been called, except when the error is that of its own INSERT: then
  the database is configured, the INSERT of the first attempt or of the retry has
  failed, and the response is 500 with the message of that failure.
\<close>

theorem recorder_at_most_once:
  fixes env :: environment and io :: hist_io and st :: credential
    and db :: "scan_row list option" and req :: detect_request
  defines "h \<equiv> hist_post_api_detect env io st db req"
  shows "length (saved (trace h)) \<le> 1 \<and>
         length (inserted_dims (trace h)) \<le> 1 \<and>
         (succeeded (response h) \<longrightarrow> length (saved (trace h)) = 1) \<and>
         (\<not> succeeded (response h) \<and> saved (trace h) \<noteq> [] \<longrightarrow>
            db \<noteq> None \<and>
            (\<exists>m. (insert_first io = QueryFailed m \<or> insert_retry io = QueryFailed m) \<and>
                 response h = \<lparr>status = 500, body = ErrorBody m\<rparr>))"
proof -
  have one: "length (saved (trace h)) \<le> 1"
    unfolding h_def saved_hist by (simp add: Let_def split: option.split promise.split)
  have ins: "length (inserted_dims (trace h)) \<le> 1"
    using one unfolding h_def inserted_hist by simp
  have ok: "succeeded (response h) \<longrightarrow> length (saved (trace h)) = 1"
    unfolding h_def saved_hist response_hist response_hist_catch
    by (simp add: Let_def succeeded_simps split: option.split promise.split)
  have err: "\<not> succeeded (response h) \<and> saved (trace h) \<noteq> [] \<longrightarrow>
            db \<noteq> None \<and>
            (\<exists>m. (insert_first io = QueryFailed m \<or> insert_retry io = QueryFailed m) \<and>
                 response h = \<lparr>status = 500, body = ErrorBody m\<rparr>)"
    unfolding h_def saved_hist response_hist response_hist_catch saveScan_error
    by (auto simp: Let_def succeeded_simps error_reply_db split: option.split promise.split query.split)
  from one ins ok err show ?thesis by blast
qed

theorem recorder_at_most_once_witness:
  "length (saved (trace (hist_post_api_detect ex_env (ex_hio\<lparr>check_first := Rejected ex_401\<rparr>)
      ex_cred (Some []) ex_req))) = 1 \<and>
   succeeded (response (hist_post_api_detect ex_env (ex_hio\<lparr>check_first := Rejected ex_401\<rparr>)
      ex_cred (Some []) ex_req)) \<and>
   saved (trace (hist_post_api_detect ex_env (ex_hio\<lparr>check_first := Rejected ex_neterr\<rparr>)
      ex_cred (Some []) ex_req)) = []"
  using recorder_at_most_once [where env = ex_env and st = ex_cred and req = ex_req
      and io = "ex_hio\<lparr>check_first := Rejected ex_401\<rparr>" and db = "Some []"]
  by (simp add: ex_defs handler_defs reply_defs succeeded_def)

text \<open>
  The claim as stated fails: when the INSERT fails, \<^verbatim>\<open>saveScan\<close> has been called once
  and the final outcome is an error.
\<close>

theorem recorder_counterexample:
  "length (saved (trace (hist_post_api_detect ex_env (ex_hio\<lparr>insert_first := QueryFailed ''boom''\<rparr>)
      ex_cred (Some []) ex_req))) = 1 \<and>
   \<not> succeeded (response (hist_post_api_detect ex_env
      (ex_hio\<lparr>insert_first := QueryFailed ''boom''\<rparr>) ex_cred (Some []) ex_req)) \<and>
   status (response (hist_post_api_detect ex_env
      (ex_hio\<lparr>insert_first := QueryFailed ''boom''\<rparr>) ex_cred (Some []) ex_req)) = 500"
  by (simp add: ex_defs handler_defs reply_defs succeeded_def)

text \<open>
  C4. What the code does on a 2xx answer of the identity endpoint that carries neither
  \<^verbatim>\<open>access_token\<close> nor \<^verbatim>\<open>token\<close>. \<^verbatim>\<open>authenticate\<close> (\<^verbatim>\<open>server.js\<close>, \<^verbatim>\<open>part_000\<close>),
  called in the initial state, stores \<^verbatim>\<open>undefined\<close> as the token together with a
  timestamp, so that \<^verbatim>\<open>tokenFetchedAt\<close> is set while no token is held, and the status
  endpoint then reports \<^verbatim>\<open>authenticated: true\<close>. The login handler of \<^verbatim>\<open>part_001\<close>
  tests for the missing token and answers 401, but only after the assignment: the token
  held before is replaced by \<^verbatim>\<open>undefined\<close> although the login is reported as failed.
  (For a missing configuration and for a rejected POST the store is unchanged, and a
  token that is held always has its timestamp: \<open>authenticate_failure_keeps_store\<close>,
  \<open>reachable_token_has_timestamp\<close>.)
\<close>

theorem login_reply_without_token:
  "authenticate_all initial_credential [(ex_env, ex_no_token, 1000)] =
     \<lparr>storedToken = JUndefined, tokenFetchedAt = Some 1000\<rparr> \<and>
   authenticate ex_env ex_no_token 1000 initial_credential =
     (\<lparr>storedToken = JUndefined, tokenFetchedAt = Some 1000\<rparr>,
      [CallAuthenticate, PostLogin (JStr ''a@b.c'') (JStr ''key'')]) \<and>
   srv_get_api_status ex_env \<lparr>storedToken = JUndefined, tokenFetchedAt = Some 1000\<rparr> =
     \<lparr>status = 200, body = StatusBody True True\<rparr> \<and>
   tok_post_api_login (JStr ''a@b.c'') (JStr ''key'') ex_no_token (JStr ''tok1'') =
     (\<lparr>status = 401, body = ErrorBody ''Authentication failed: No token returned by Copyleaks.''\<rparr>,
      JUndefined, [PostLogin (JStr ''a@b.c'') (JStr ''key'')])"
  by (simp add: authenticate_def tok_post_api_login_def srv_get_api_status_def js_or_def
      ex_env_def ex_no_token_def initial_credential_def)

theorem login_reply_without_token_witness:
  "tokenFetchedAt (fst (authenticate ex_env ex_no_token 1000 initial_credential)) = Some 1000 \<and>
   truthy (storedToken (fst (authenticate ex_env ex_no_token 1000 initial_credential))) = False \<and>
   fst (snd (tok_post_api_login (JStr ''a@b.c'') (JStr ''key'') ex_no_token (JStr ''tok1''))) =
     JUndefined"
  using login_reply_without_token by simp

text \<open>
  C5 (as amended). In \<^verbatim>\<open>server.js\<close>, when the store is stale (no token held, or a token
  fetched at least 47 hours ago), the first call the handler makes is \<^verbatim>\<open>authenticate\<close>,
  before any POST to the detection endpoint. If no token is held after that refresh, in
  particular when none was held before and the refresh failed, the response is 401
  \<^verbatim>\<open>Not authenticated\<close> and the detection endpoint is not contacted. When the refresh
  fails while an earlier token is still held, the store keeps that token and the first
  attempt is made with it.
\<close>

theorem stale_store_refreshed_first:
  fixes env :: environment and io :: "'a detect_io_scheme" and st :: credential
    and req :: detect_request
  defines "s \<equiv> srv_post_api_detect env io st req"
  defines "st1 \<equiv> fst (authenticate env (login_refresh io) (now_refresh io) st)"
  assumes stale: "is_stale (now_stale io) st"
  shows "(\<exists>rest. trace s = CallAuthenticate # rest) \<and>
         (\<not> truthy (storedToken st1) \<longrightarrow>
            response s = not_authenticated \<and> filter is_PostCheck (trace s) = [] \<and> store s = st1) \<and>
         (\<not> truthy (storedToken st) \<and> authenticate_fails env (login_refresh io) \<longrightarrow>
            response s = not_authenticated \<and> filter is_PostCheck (trace s) = [] \<and> store s = st) \<and>
         (truthy (storedToken st) \<and> authenticate_fails env (login_refresh io) \<and>
          req_file req = Some f \<longrightarrow>
            (\<exists>rest. filter is_PostCheck (trace s) =
               PostCheck (randomUUID io) (build_form f (body_sandbox req = JStr ''true''))
                 (storedToken st) # rest))"
proof -
  have refresh: "refreshIfNeeded env (now_stale io) (login_refresh io) (now_refresh io) st =
      authenticate env (login_refresh io) (now_refresh io) st"
    using stale by (simp add: refreshIfNeeded_def)
  obtain ev where ev: "snd (authenticate env (login_refresh io) (now_refresh io) st) =
      CallAuthenticate # ev"
    using authenticate_starts_with_call by blast
  obtain rest where "trace s =
      snd (refreshIfNeeded env (now_stale io) (login_refresh io) (now_refresh io) st) @ rest"
    unfolding s_def using trace_srv_prefix by blast
  then have first: "\<exists>rest. trace s = CallAuthenticate # rest"
    by (simp add: refresh ev)
  have none: "\<not> truthy (storedToken st1) \<longrightarrow>
      response s = not_authenticated \<and> filter is_PostCheck (trace s) = [] \<and> store s = st1"
    unfolding s_def st1_def
    using srv_no_token[of env io st req] checks_authenticate[of env "login_refresh io" "now_refresh io" st]
    by (simp add: refresh)
  have failed: "authenticate_fails env (login_refresh io) \<Longrightarrow> st1 = st"
    unfolding st1_def by (rule authenticate_failure_keeps_store)
  have absent: "\<not> truthy (storedToken st) \<and> authenticate_fails env (login_refresh io) \<longrightarrow>
      response s = not_authenticated \<and> filter is_PostCheck (trace s) = [] \<and> store s = st"
    using none failed by auto
  have held: "truthy (storedToken st) \<and> authenticate_fails env (login_refresh io) \<and>
      req_file req = Some f \<longrightarrow>
      (\<exists>rest. filter is_PostCheck (trace s) =
         PostCheck (randomUUID io) (build_form f (body_sandbox req = JStr ''true''))
           (storedToken st) # rest)"
    unfolding s_def
    using srv_first_check[of env io st req f] failed
    by (auto simp: refresh st1_def)
  from first none absent held show ?thesis by blast
qed

theorem stale_store_refreshed_first_witness:
  "is_stale 1000 initial_credential \<and>
   response (srv_post_api_detect ex_env (ex_io\<lparr>login_refresh := Rejected ex_neterr\<rparr>)
      initial_credential ex_req) = not_authenticated \<and>
   trace (srv_post_api_detect ex_env (ex_io\<lparr>login_refresh := Rejected ex_neterr\<rparr>)
      initial_credential ex_req) = [CallAuthenticate, PostLogin (JStr ''a@b.c'') (JStr ''key'')]"
  using stale_store_refreshed_first [where env = ex_env and st = initial_credential
      and io = "ex_io\<lparr>login_refresh := Rejected ex_neterr\<rparr>" and req = ex_req and f = ex_file]
  by (simp add: ex_defs handler_defs reply_defs authenticate_fails_def initial_credential_def)

text \<open>
  The claim as stated fails: a token fetched exactly 47 hours ago is stale, the
  refresh is rejected by a network error, and the image is still posted to the
  detection endpoint with the old token.
\<close>

theorem stale_refresh_counterexample:
  "is_stale 169200000 ex_cred \<and>
   authenticate_fails ex_env (Rejected ex_neterr) \<and>
   trace (srv_post_api_detect ex_env
            (ex_io\<lparr>now_stale := 169200000, login_refresh := Rejected ex_neterr\<rparr>) ex_cred ex_req) =
     [CallAuthenticate, PostLogin (JStr ''a@b.c'') (JStr ''key''),
      PostCheck ''uuid-1'' ex_form (JStr ''tok1'')] \<and>
   response (srv_post_api_detect ex_env
            (ex_io\<lparr>now_stale := 169200000, login_refresh := Rejected ex_neterr\<rparr>) ex_cred ex_req) =
     json_reply ex_data"
  by (simp add: ex_defs handler_defs reply_defs authenticate_fails_def)

text \<open>
  C6. In \<^verbatim>\<open>part_000\<close> the result of a detection is what the handler extracts from the
  2xx payload and hands to \<^verbatim>\<open>saveScan\<close> (the response body itself is the payload as
  received). After a 2xx answer to the first attempt, or to the retry, exactly the
  result extracted from that answer is recorded.
  Every result recorded comes from a 2xx payload \<open>d\<close> of the first attempt or of the
  retry, with \<^verbatim>\<open>aiPct\<close> 0 when \<open>d\<close> has no \<^verbatim>\<open>summary.ai\<close>, \<^verbatim>\<open>humanPct\<close> equal to
  \<^verbatim>\<open>100 - aiPct\<close> when \<open>d\<close> has no \<^verbatim>\<open>summary.human\<close>, and the dimensions of
  \<^verbatim>\<open>imageInfo\<close>, absent when \<open>d\<close> has none. The INSERT stores \<^verbatim>\<open>width || null\<close> and
  \<^verbatim>\<open>height || null\<close>: a dimension stored is never 0, and a missing one is stored as
  null.
\<close>

theorem detection_result_defaults:
  fixes env :: environment and io :: hist_io and st :: credential
    and db :: "scan_row list option" and req :: detect_request
  defines "h \<equiv> hist_post_api_detect env io st db req"
  defines "st1 \<equiv> fst (refreshIfNeeded env (now_stale io) (login_refresh io) (now_refresh io) st)"
  defines "st2 \<equiv> fst (authenticate env (login_retry io) (now_retry io) st1)"
  shows "(truthy (storedToken st1) \<and> req_file req = Some f \<and> check_first io = Resolved d \<longrightarrow>
            saved (trace h) = [scan_args_of (randomUUID io) f (body_sandbox req = JStr ''true'') d]) \<and>
         (truthy (storedToken st1) \<and> req_file req = Some f \<and> check_first io = Rejected err \<and>
          is_401 err \<and> truthy (storedToken st2) \<and> check_retry io = Resolved d \<longrightarrow>
            saved (trace h) = [scan_args_of (randomUUID io) f (body_sandbox req = JStr ''true'') d]) \<and>
         list_all
           (\<lambda>a. \<exists>d. (check_first io = Resolved d \<or> check_retry io = Resolved d) \<and>
                 a_aiPct a = (case chain (summary d) ai of None \<Rightarrow> 0 | Some v \<Rightarrow> v) \<and>
                 a_humanPct a =
                   (case chain (summary d) human of None \<Rightarrow> 100 - a_aiPct a | Some v \<Rightarrow> v) \<and>
                 a_width a = chain (imageInfo d) width \<and>
                 a_height a = chain (imageInfo d) height)
           (saved (trace h)) \<and>
         inserted_dims (trace h) =
           (if db = None then []
            else map (\<lambda>a. (or_null (a_width a), or_null (a_height a))) (saved (trace h))) \<and>
         list_all (\<lambda>(w, hgt). w \<noteq> Some 0 \<and> hgt \<noteq> Some 0) (inserted_dims (trace h))"
proof -
  have first: "truthy (storedToken st1) \<and> req_file req = Some f \<and> check_first io = Resolved d \<longrightarrow>
      saved (trace h) = [scan_args_of (randomUUID io) f (body_sandbox req = JStr ''true'') d]"
    unfolding h_def st1_def saved_hist by (simp add: Let_def)
  have retry: "truthy (storedToken st1) \<and> req_file req = Some f \<and> check_first io = Rejected err \<and>
      is_401 err \<and> truthy (storedToken st2) \<and> check_retry io = Resolved d \<longrightarrow>
      saved (trace h) = [scan_args_of (randomUUID io) f (body_sandbox req = JStr ''true'') d]"
    unfolding h_def st1_def st2_def saved_hist by (simp add: Let_def)
  have each': "list_all
           (\<lambda>a. \<exists>d. (check_first io = Resolved d \<or> check_retry io = Resolved d) \<and>
                 extracted_from d a)
           (saved (trace h))"
    unfolding h_def saved_hist
    by (auto simp: Let_def extracted_from_scan_args_of split: option.split promise.split)
  have each: "list_all
           (\<lambda>a. \<exists>d. (check_first io = Resolved d \<or> check_retry io = Resolved d) \<and>
                 a_aiPct a = (case chain (summary d) ai of None \<Rightarrow> 0 | Some v \<Rightarrow> v) \<and>
                 a_humanPct a =
                   (case chain (summary d) human of None \<Rightarrow> 100 - a_aiPct a | Some v \<Rightarrow> v) \<and>
                 a_width a = chain (imageInfo d) width \<and>
                 a_height a = chain (imageInfo d) height)
           (saved (trace h))"
    using each' unfolding extracted_from_def .
  have dims: "inserted_dims (trace h) =
           (if db = None then []
            else map (\<lambda>a. (or_null (a_width a), or_null (a_height a))) (saved (trace h)))"
    unfolding h_def by (rule inserted_hist)
  have nonzero: "list_all (\<lambda>(w, hgt). w \<noteq> Some 0 \<and> hgt \<noteq> Some 0) (inserted_dims (trace h))"
    unfolding dims by (simp add: list_all_iff or_null_not_zero)
  from first retry each dims nonzero show ?thesis by blast
qed

theorem detection_result_defaults_witness:
  "saved (trace (hist_post_api_detect ex_env ex_hio ex_cred (Some []) ex_req)) =
     [\<lparr>a_scanId = ''uuid-1'', a_filename = ''cat.png'', a_aiPct = 73, a_humanPct = 27,
       a_width = None, a_height = None, a_sandbox = True\<rparr>] \<and>
   inserted_dims (trace (hist_post_api_detect ex_env ex_hio ex_cred (Some []) ex_req)) =
     [(None, None)] \<and>
   a_aiPct (scan_args_of ''uuid-1'' ex_file True
     \<lparr>summary = None, imageInfo = Some \<lparr>width = Some 0, height = None\<rparr>, other_fields = []\<rparr>) = 0"
  using detection_result_defaults [where env = ex_env and st = ex_cred and req = ex_req
      and io = ex_hio and db = "Some []" and f = ex_file and d = ex_data]
  by (simp add: ex_defs handler_defs reply_defs)

text \<open>
  C7 (as amended). An upload whose image is longer than 32 MiB (33554432 bytes) is
  stopped by the upload middleware: the handler does not run, no call leaves the server
  (neither login nor detection), and the store and the table are unchanged. No file maps
  this error to a status: the response is the one of the framework's default error
  handler, 500, not 400 (400 is what the handlers answer to a request without a file).
\<close>

theorem oversize_upload_stopped_by_middleware:
  assumes "req_file raw = Some f" and "length (buffer f) > fileSize"
  shows "fileSize = 33554432 \<and>
         srv_route_detect env io st raw =
           \<lparr>response = \<lparr>status = 500, body = FrameworkErrorPage\<rparr>, store = st, trace = []\<rparr> \<and>
         hist_route_detect env hio st db raw =
           \<lparr>response = \<lparr>status = 500, body = FrameworkErrorPage\<rparr>, store = st, trace = [],
            database = db\<rparr> \<and>
         tok_route_detect uuid check tk raw = (\<lparr>status = 500, body = FrameworkErrorPage\<rparr>, [])"
  using assms
  by (simp add: srv_route_detect_def hist_route_detect_def tok_route_detect_def upload_single_def
      default_error_handler_def fileSize_def)

theorem oversize_upload_witness:
  "srv_route_detect ex_env ex_io ex_cred ex_big_req =
     \<lparr>response = \<lparr>status = 500, body = FrameworkErrorPage\<rparr>, store = ex_cred, trace = []\<rparr>"
  using oversize_upload_stopped_by_middleware [where raw = ex_big_req and env = ex_env
      and io = ex_io and st = ex_cred
      and f = "\<lparr>buffer = replicate (fileSize + 1) 0, originalname = ''big.png'',
                 mimetype = ''image/png''\<rparr>"]
  by (simp add: ex_big_req_def)

text \<open>
  The claim as stated fails: an upload of 33554433 bytes is answered with status 500.
\<close>

theorem oversize_upload_counterexample:
  "upload_single ex_big_req = Inl LIMIT_FILE_SIZE \<and>
   status (response (srv_route_detect ex_env ex_io ex_cred ex_big_req)) = 500 \<and>
   status (response (hist_route_detect ex_env ex_hio ex_cred (Some []) ex_big_req)) \<noteq> 400"
  by (simp add: srv_route_detect_def hist_route_detect_def upload_single_def
      default_error_handler_def ex_big_req_def)

text \<open>
  C8. \<^verbatim>\<open>GET /api/history\<close>: without a database the response is the empty list with
  status 200, not an error. With a database, the history records in the response are at
  most 100, ordered newest first by \<^verbatim>\<open>created_at\<close>, and are rows of the table: when the
  query succeeds they are the first 100 of the table sorted by descending
  \<^verbatim>\<open>created_at\<close>, and when it fails the response is an error body that holds none.
\<close>

theorem history_at_most_100_newest_first:
  "get_api_history None res = (\<lparr>status = 200, body = RowsBody []\<rparr>, []) \<and>
   fst (get_api_history (Some rows) (QueryOk ())) =
     \<lparr>status = 200, body = RowsBody (take 100 (newest_first rows))\<rparr> \<and>
   length (rows_of (fst (get_api_history db res))) \<le> 100 \<and>
   sorted_wrt (\<lambda>a b. created_at b \<le> created_at a) (rows_of (fst (get_api_history db res))) \<and>
   set (rows_of (fst (get_api_history (Some rows) res))) \<subseteq> set rows"
proof -
  have sorted_take:
    "sorted_wrt (\<lambda>a b. created_at b \<le> created_at a) (take 100 (newest_first rs))" for rs
    by (rule sorted_wrt_take) (rule sorted_wrt_newest_first)
  have subset_take: "set (take 100 (newest_first rs)) \<subseteq> set rs" for rs
    using set_take_subset[of 100 "newest_first rs"] by (simp add: set_newest_first)
  show ?thesis
    using sorted_take subset_take
    by (simp add: get_api_history_def split: option.split query.split)
qed

theorem history_at_most_100_newest_first_witness:
  "rows_of (fst (get_api_history (Some ex_rows) (QueryOk ()))) = [ex_row 2 20, ex_row 1 10] \<and>
   length (rows_of (fst (get_api_history (Some ex_rows) (QueryOk ())))) \<le> 100 \<and>
   get_api_history None (QueryOk ()) = (\<lparr>status = 200, body = RowsBody []\<rparr>, [])"
  using history_at_most_100_newest_first [where rows = ex_rows and db = "Some ex_rows"
      and res = "QueryOk ()"]
  by (simp add: get_api_history_def newest_first_def ex_rows_def ex_row_def)



text \<open>
  C10. No response body depends on the value of the stored token. The status
  endpoints of \<^verbatim>\<open>server.js\<close> and \<^verbatim>\<open>part_001\<close> report booleans, and two states whose
  tokens are both present (not null) get the same status response. \<^verbatim>\<open>POST /api/token\<close>
  answers with one of two fixed bodies, whatever token was stored before, and
  \<^verbatim>\<open>POST /api/login\<close> answers a successful exchange with a fixed body and every exchange
  without regard to the token stored before. The detection handlers of \<^verbatim>\<open>part_001\<close> and
  \<^verbatim>\<open>server.js\<close> give the same response for any two tokens that are both held.
\<close>

theorem token_never_in_response:
  "(storedToken s1 \<noteq> JNull \<and> storedToken s2 \<noteq> JNull \<longrightarrow>
      srv_get_api_status env s1 = srv_get_api_status env s2) \<and>
   (t1 \<noteq> JNull \<and> t2 \<noteq> JNull \<longrightarrow> tok_get_api_status t1 = tok_get_api_status t2) \<and>
   (fst (tok_post_api_token b t1) = token_required \<or>
    fst (tok_post_api_token b t1) = \<lparr>status = 200, body = OkBody ''Token stored. Ready to scan.''\<rparr>) \<and>
   fst (tok_post_api_token b t1) = fst (tok_post_api_token b t2) \<and>
   fst (tok_post_api_login email key reply t1) = fst (tok_post_api_login email key reply t2) \<and>
   (truthy email \<and> truthy key \<and> truthy (js_or (access_token d) (token d)) \<longrightarrow>
      fst (tok_post_api_login email key (Resolved d) t1) =
        \<lparr>status = 200, body = OkBody ''Authenticated. Token stored server-side.''\<rparr>) \<and>
   (truthy t1 \<and> truthy t2 \<longrightarrow>
      fst (tok_post_api_detect uuid check t1 req) = fst (tok_post_api_detect uuid check t2 req)) \<and>
   (truthy (storedToken s1) \<and> truthy (storedToken s2) \<and> tokenFetchedAt s1 = tokenFetchedAt s2 \<longrightarrow>
      response (srv_post_api_detect env io s1 req) = response (srv_post_api_detect env io s2 req))"
proof -
  have status_srv: "storedToken s1 \<noteq> JNull \<and> storedToken s2 \<noteq> JNull \<longrightarrow>
      srv_get_api_status env s1 = srv_get_api_status env s2"
    by (simp add: srv_get_api_status_def)
  have status_tok: "t1 \<noteq> JNull \<and> t2 \<noteq> JNull \<longrightarrow> tok_get_api_status t1 = tok_get_api_status t2"
    by (simp add: tok_get_api_status_def)
  have token_fixed: "fst (tok_post_api_token b t1) = token_required \<or>
    fst (tok_post_api_token b t1) = \<lparr>status = 200, body = OkBody ''Token stored. Ready to scan.''\<rparr>"
    by (simp add: tok_post_api_token_def split: jsval.split)
  have token_indep: "fst (tok_post_api_token b t1) = fst (tok_post_api_token b t2)"
    by (simp add: tok_post_api_token_def split: jsval.split)
  have login_indep:
    "fst (tok_post_api_login email key reply t1) = fst (tok_post_api_login email key reply t2)"
    by (simp add: tok_post_api_login_def Let_def split: promise.split)
  have login_fixed: "truthy email \<and> truthy key \<and> truthy (js_or (access_token d) (token d)) \<longrightarrow>
      fst (tok_post_api_login email key (Resolved d) t1) =
        \<lparr>status = 200, body = OkBody ''Authenticated. Token stored server-side.''\<rparr>"
    by (simp add: tok_post_api_login_def Let_def)
  have detect_tok: "truthy t1 \<and> truthy t2 \<longrightarrow>
      fst (tok_post_api_detect uuid check t1 req) = fst (tok_post_api_detect uuid check t2 req)"
    by (simp add: tok_post_api_detect_def Let_def split: option.split promise.split)
  have detect_srv: "truthy (storedToken s1) \<and> truthy (storedToken s2) \<and>
      tokenFetchedAt s1 = tokenFetchedAt s2 \<longrightarrow>
      response (srv_post_api_detect env io s1 req) = response (srv_post_api_detect env io s2 req)"
  proof (intro impI, elim conjE)
    assume t: "truthy (storedToken s1)" "truthy (storedToken s2)"
      and f: "tokenFetchedAt s1 = tokenFetchedAt s2"
    let ?r1 = "fst (refreshIfNeeded env (now_stale io) (login_refresh io) (now_refresh io) s1)"
    let ?r2 = "fst (refreshIfNeeded env (now_stale io) (login_refresh io) (now_refresh io) s2)"
    have r: "truthy (storedToken ?r1) = truthy (storedToken ?r2)"
      using t f truthy_after_authenticate[of s1 s2] by (simp add: refreshIfNeeded_def is_stale_def)
    have a: "truthy (storedToken (fst (authenticate env (login_retry io) (now_retry io) ?r1))) =
             truthy (storedToken (fst (authenticate env (login_retry io) (now_retry io) ?r2)))"
      using r by (rule truthy_after_authenticate)
    show "response (srv_post_api_detect env io s1 req) = response (srv_post_api_detect env io s2 req)"
      using r a unfolding srv_post_api_detect_def
      by (simp add: Let_def split_beta split: option.split promise.split)
  qed
  show ?thesis
    using status_srv status_tok token_fixed token_indep login_indep login_fixed detect_tok detect_srv
    by blast
qed

theorem token_never_in_response_witness:
  "srv_get_api_status ex_env ex_cred =
     srv_get_api_status ex_env (ex_cred\<lparr>storedToken := JStr ''tok9''\<rparr>) \<and>
   tok_get_api_status (JStr ''tok1'') = tok_get_api_status (JStr ''tok9'') \<and>
   fst (tok_post_api_token (JStr '' tok1 '') JNull) =
     \<lparr>status = 200, body = OkBody ''Token stored. Ready to scan.''\<rparr> \<and>
   fst (tok_post_api_login (JStr ''a@b.c'') (JStr ''key'') ex_login (JStr ''tok1'')) =
     \<lparr>status = 200, body = OkBody ''Authenticated. Token stored server-side.''\<rparr> \<and>
   fst (tok_post_api_detect ''uuid-1'' (Resolved ex_data) (JStr ''tok1'') ex_req) =
     fst (tok_post_api_detect ''uuid-1'' (Resolved ex_data) (JStr ''tok9'') ex_req) \<and>
   response (srv_post_api_detect ex_env ex_io ex_cred ex_req) =
     response (srv_post_api_detect ex_env ex_io (ex_cred\<lparr>storedToken := JStr ''tok9''\<rparr>) ex_req)"
  using token_never_in_response [where ?s1.0 = ex_cred
      and ?s2.0 = "ex_cred\<lparr>storedToken := JStr ''tok9''\<rparr>" and env = ex_env
      and ?t1.0 = "JStr ''tok1''" and ?t2.0 = "JStr ''tok9''" and b = "JStr '' tok1 ''"
      and email = "JStr ''a@b.c''" and key = "JStr ''key''" and reply = ex_login
      and d = "\<lparr>access_token = JStr ''tok2'', token = JUndefined\<rparr>"
      and uuid = "''uuid-1''" and check = "Resolved ex_data" and req = ex_req and io = ex_io]
  by (simp add: ex_defs handler_defs reply_defs tok_post_api_token_def tok_post_api_login_def
      tok_get_api_status_def srv_get_api_status_def js_trim_def white_space_def
      space_at_start_def token_required_def)

end
